theory Spec2Isabelle
  imports Complex_Main "HOL-Library.Multiset"
begin

section \<open>Column values\<close>

text \<open>
  The ferry script \<^verbatim>\<open>ferry-to-derived.py\<close> reads the raw \<^verbatim>\<open>cafes\<close> table into a pandas
  frame. A numeric cell is a float64: a finite number, an infinity, or NaN, which is how
  pandas holds SQL NULL in a numeric column. A finite value is taken as the real number
  it denotes (rounding is not modelled), NaN as \<open>None\<close>. A text cell is a byte string or
  NULL; case conversion is the ASCII one.
\<close>

datatype float = NInf | Fin real | PInf

type_synonym cell = "float option"

fun fless :: "float \<Rightarrow> float \<Rightarrow> bool" where
  "fless (Fin a) (Fin b) = (a < b)"
| "fless NInf b = (b \<noteq> NInf)"
| "fless a PInf = (a \<noteq> PInf)"
| "fless _ _ = False"

definition fle :: "float \<Rightarrow> float \<Rightarrow> bool" where
  "fle a b = (a = b \<or> fless a b)"

text \<open>\<^verbatim>\<open>series < c\<close> and \<^verbatim>\<open>series > c\<close>: a comparison with NaN is False.\<close>

definition lt :: "cell \<Rightarrow> float \<Rightarrow> bool" where
  "lt x c = (case x of None \<Rightarrow> False | Some v \<Rightarrow> fless v c)"

definition gt :: "cell \<Rightarrow> float \<Rightarrow> bool" where
  "gt x c = (case x of None \<Rightarrow> False | Some v \<Rightarrow> fless c v)"

definition isna :: "'a option \<Rightarrow> bool" where
  "isna x = (x = None)"

definition notna :: "'a option \<Rightarrow> bool" where
  "notna x = (x \<noteq> None)"

text \<open>IEEE addition and multiplication, and \<^verbatim>\<open>np.log\<close>, on cells.\<close>

fun fadd :: "float \<Rightarrow> float \<Rightarrow> cell" where
  "fadd (Fin a) (Fin b) = Some (Fin (a + b))"
| "fadd PInf NInf = None"
| "fadd NInf PInf = None"
| "fadd PInf _ = Some PInf"
| "fadd _ PInf = Some PInf"
| "fadd NInf _ = Some NInf"
| "fadd _ NInf = Some NInf"

definition fneg :: "float \<Rightarrow> float" where
  "fneg a = (case a of NInf \<Rightarrow> PInf | Fin x \<Rightarrow> Fin (- x) | PInf \<Rightarrow> NInf)"

definition fsgn :: "float \<Rightarrow> int" where
  "fsgn a = (case a of NInf \<Rightarrow> - 1 | Fin x \<Rightarrow> (if x < 0 then - 1 else if x = 0 then 0 else 1)
                     | PInf \<Rightarrow> 1)"

fun fmul :: "float \<Rightarrow> float \<Rightarrow> cell" where
  "fmul (Fin a) (Fin b) = Some (Fin (a * b))"
| "fmul a b = (let s = fsgn a * fsgn b
               in if s = 0 then None else if s < 0 then Some NInf else Some PInf)"

definition cadd :: "cell \<Rightarrow> cell \<Rightarrow> cell" where
  "cadd x y = (case (x, y) of (Some a, Some b) \<Rightarrow> fadd a b | _ \<Rightarrow> None)"

definition csub :: "cell \<Rightarrow> cell \<Rightarrow> cell" where
  "csub x y = cadd x (map_option fneg y)"

definition cmul :: "cell \<Rightarrow> cell \<Rightarrow> cell" where
  "cmul x y = (case (x, y) of (Some a, Some b) \<Rightarrow> fmul a b | _ \<Rightarrow> None)"

definition np_log :: "cell \<Rightarrow> cell" where
  "np_log x = (case x of None \<Rightarrow> None
     | Some NInf \<Rightarrow> None
     | Some PInf \<Rightarrow> Some PInf
     | Some (Fin a) \<Rightarrow> (if a < 0 then None else if a = 0 then Some NInf else Some (Fin (ln a))))"

text \<open>\<^verbatim>\<open>math.sqrt\<close> is only ever applied to a sum of two squares.\<close>

definition csqrt_cell :: "cell \<Rightarrow> cell" where
  "csqrt_cell x = (case x of Some (Fin a) \<Rightarrow> Some (Fin (sqrt a)) | Some PInf \<Rightarrow> Some PInf
                    | _ \<Rightarrow> None)"

text \<open>Boolean series: \<^verbatim>\<open>.any()\<close> and \<^verbatim>\<open>.sum()\<close>.\<close>

definition any :: "bool list \<Rightarrow> bool" where
  "any bs = (True \<in> set bs)"

definition count_true :: "bool list \<Rightarrow> nat" where
  "count_true bs = length (filter id bs)"

text \<open>\<^verbatim>\<open>Series.duplicated()\<close>: every occurrence of a value after its first one.\<close>

fun duplicated_from :: "'a list \<Rightarrow> 'a list \<Rightarrow> bool list" where
  "duplicated_from seen [] = []"
| "duplicated_from seen (x # xs) = (x \<in> set seen) # duplicated_from (x # seen) xs"

definition duplicated :: "'a list \<Rightarrow> bool list" where
  "duplicated xs = duplicated_from [] xs"

text \<open>
  \<^verbatim>\<open>pd.cut(x, bins, labels)\<close> with the default \<^verbatim>\<open>right=True\<close>: the bin of a value is
  found by a left binary search in the edges (the number of edges strictly below the
  value); a value at or below the first edge, above the last edge, or NaN has no bin.
\<close>

definition searchsorted_left :: "float list \<Rightarrow> float \<Rightarrow> nat" where
  "searchsorted_left bins v = length (takeWhile (\<lambda>b. fless b v) bins)"

definition pd_cut :: "float list \<Rightarrow> string list \<Rightarrow> cell \<Rightarrow> string option" where
  "pd_cut bins labels x = (case x of None \<Rightarrow> None
     | Some v \<Rightarrow> (let ids = searchsorted_left bins v
                  in if ids = length bins \<or> ids = 0 then None else Some (labels ! (ids - 1))))"

text \<open>
  \<^verbatim>\<open>Series.rank(pct=True)\<close>: the average rank of a value among the non-null values,
  divided by their number; NaN stays NaN.
\<close>

definition rank_pct :: "cell list \<Rightarrow> cell \<Rightarrow> cell" where
  "rank_pct col x = (case x of None \<Rightarrow> None
     | Some v \<Rightarrow> (let vals = map the (filter notna col);
                      less = length (filter (\<lambda>w. fless w v) vals);
                      ties = length (filter (\<lambda>w. w = v) vals)
                  in Some (Fin ((real less + (real ties + 1) / 2) / real (length vals)))))"

subsection \<open>Strings\<close>

definition lower_char :: "char \<Rightarrow> char" where
  "lower_char c = (let n = (of_char c :: nat) in if 65 \<le> n \<and> n \<le> 90 then char_of (n + 32) else c)"

definition upper_char :: "char \<Rightarrow> char" where
  "upper_char c = (let n = (of_char c :: nat) in if 97 \<le> n \<and> n \<le> 122 then char_of (n - 32) else c)"

definition is_lower :: "char \<Rightarrow> bool" where
  "is_lower c = (let n = (of_char c :: nat) in 97 \<le> n \<and> n \<le> 122)"

definition is_upper :: "char \<Rightarrow> bool" where
  "is_upper c = (let n = (of_char c :: nat) in 65 \<le> n \<and> n \<le> 90)"

definition is_space :: "char \<Rightarrow> bool" where
  "is_space c = (let n = (of_char c :: nat) in (9 \<le> n \<and> n \<le> 13) \<or> (28 \<le> n \<and> n \<le> 32))"

definition strip :: "string \<Rightarrow> string" where
  "strip s = rev (dropWhile is_space (rev (dropWhile is_space s)))"

definition lower :: "string \<Rightarrow> string" where
  "lower s = map lower_char s"

text \<open>\<^verbatim>\<open>str.title()\<close>: a letter after a non-letter is upper-cased, any other letter lower-cased.\<close>

fun title_from :: "bool \<Rightarrow> string \<Rightarrow> string" where
  "title_from prev [] = []"
| "title_from prev (c # cs) =
     (if is_lower c then (if prev then c else upper_char c) # title_from True cs
      else if is_upper c then (if prev then lower_char c else c) # title_from True cs
      else c # title_from False cs)"

definition title :: "string \<Rightarrow> string" where
  "title s = title_from False s"

text \<open>
  \<^verbatim>\<open>str.contains(pat, case=False)\<close> for a pattern without regular-expression operators:
  a search for a position where the pattern matches, letters compared without case.
\<close>

fun match_here :: "string \<Rightarrow> string \<Rightarrow> bool" where
  "match_here [] s = True"
| "match_here (p # ps) [] = False"
| "match_here (p # ps) (c # cs) = (lower_char p = lower_char c \<and> match_here ps cs)"

fun search :: "string \<Rightarrow> string \<Rightarrow> bool" where
  "search pat [] = match_here pat []"
| "search pat (c # cs) = (match_here pat (c # cs) \<or> search pat cs)"

definition str_contains :: "string \<Rightarrow> bool \<Rightarrow> string option \<Rightarrow> bool" where
  "str_contains pat na x = (case x of None \<Rightarrow> na | Some s \<Rightarrow> search pat s)"

section \<open>The raw table and the configuration\<close>

record cafe =
  cafe_id :: "int option"
  name :: "string option"
  address :: "string option"
  neighborhood :: "string option"
  latitude :: cell
  longitude :: cell
  phone :: "string option"
  website :: "string option"
  cafe_type :: "string option"
  ownership :: "string option"
  avg_beverage_price :: cell
  has_food :: "string option"
  has_wifi :: "string option"
  seating_capacity :: cell
  ambiance :: "string option"
  parking_availability :: "string option"
  hours_weekday :: "string option"
  hours_weekend :: "string option"
  date_opened :: "string option"
  instagram_handle :: "string option"
  google_rating :: cell
  review_count :: cell
  created_at :: "string option"
  updated_at :: "string option"

definition INPUT_DB :: string where
  "INPUT_DB = ''./data-private/raw/edmonton_cafes.sqlite''"

definition OUTPUT_DB :: string where
  "OUTPUT_DB = ''./data-private/derived/rap-1-competition-intel.sqlite''"

definition lat_min :: real where "lat_min = 53.40"
definition lat_max :: real where "lat_max = 53.70"
definition lng_min :: real where "lng_min = - 113.70"
definition lng_max :: real where "lng_max = - 113.30"

definition downtown_lat :: real where "downtown_lat = 53.5444"
definition downtown_lng :: real where "downtown_lng = - 113.4909"

definition price_min :: real where "price_min = 2.00"
definition price_max :: real where "price_max = 10.00"

section \<open>Validation\<close>

definition missing_required :: "cafe \<Rightarrow> bool" where
  "missing_required r =
     (isna (cafe_id r) \<or> isna (name r) \<or> isna (neighborhood r) \<or> isna (cafe_type r))"

definition has_coords :: "cafe \<Rightarrow> bool" where
  "has_coords r = (notna (latitude r) \<and> notna (longitude r))"

definition out_of_bounds :: "cafe \<Rightarrow> bool" where
  "out_of_bounds r =
     (lt (latitude r) (Fin lat_min) \<or> gt (latitude r) (Fin lat_max) \<or>
      lt (longitude r) (Fin lng_min) \<or> gt (longitude r) (Fin lng_max))"

definition location_warnings :: "cafe \<Rightarrow> bool" where
  "location_warnings r = (has_coords r \<and> out_of_bounds r)"

definition has_price :: "cafe \<Rightarrow> bool" where
  "has_price r = notna (avg_beverage_price r)"

definition price_suspicious :: "cafe \<Rightarrow> bool" where
  "price_suspicious r =
     (lt (avg_beverage_price r) (Fin price_min) \<or> gt (avg_beverage_price r) (Fin price_max))"

definition price_warnings :: "cafe \<Rightarrow> bool" where
  "price_warnings r = (has_price r \<and> price_suspicious r)"

definition has_rating :: "cafe \<Rightarrow> bool" where
  "has_rating r = notna (google_rating r)"

definition invalid_rating :: "cafe \<Rightarrow> bool" where
  "invalid_rating r = (lt (google_rating r) (Fin 1.0) \<or> gt (google_rating r) (Fin 5.0))"

definition rating_warnings :: "cafe \<Rightarrow> bool" where
  "rating_warnings r = (has_rating r \<and> invalid_rating r)"

text \<open>
  Section 3 of the script. The result is \<open>Inl 1\<close> where the script calls \<^verbatim>\<open>sys.exit(1)\<close>,
  and otherwise the two counters \<^verbatim>\<open>validation_errors\<close> and \<^verbatim>\<open>validation_warnings\<close> as
  they stand at the end of the section.
\<close>

definition add_warnings :: "bool list \<Rightarrow> nat \<Rightarrow> nat" where
  "add_warnings warnings validation_warnings =
     (if any warnings then validation_warnings + count_true warnings else validation_warnings)"

definition validation :: "cafe list \<Rightarrow> nat + nat \<times> nat" where
  "validation ds_raw =
     (let validation_errors = 0;
          validation_warnings = 0
      in if any (map missing_required ds_raw) then Inl 1
         else if any (duplicated (map cafe_id ds_raw)) then Inl 1
         else let validation_warnings = add_warnings (map location_warnings ds_raw) validation_warnings;
                  validation_warnings = add_warnings (map price_warnings ds_raw) validation_warnings;
                  validation_warnings = add_warnings (map rating_warnings ds_raw) validation_warnings
              in Inr (validation_errors, validation_warnings))"

section \<open>Transformation\<close>

text \<open>
  Section 4 of the script works on a copy \<^verbatim>\<open>ds\<close> of the raw frame. The masks of section 3
  were computed on the raw frame and are applied to the copy row by row.
\<close>

definition standardize :: "cafe \<Rightarrow> cafe" where
  "standardize r = r
     \<lparr> neighborhood := map_option (title \<circ> strip) (neighborhood r),
       cafe_type := map_option (lower \<circ> strip) (cafe_type r),
       ownership := map_option (lower \<circ> strip) (ownership r),
       google_rating := (if invalid_rating r then None else google_rating r),
       review_count := (if lt (review_count r) (Fin 0) then None else review_count r) \<rparr>"

record derived_cafe = cafe +
  price_category :: "string option"
  popularity_percentile :: cell
  quality_score :: cell
  distance_from_downtown :: cell
  location_zone :: "string option"
  flag_missing_location :: bool
  flag_no_rating :: bool
  flag_no_price :: bool
  flag_location_out_of_bounds :: bool
  flag_suspicious_price :: bool
  quality_flag_count :: nat
  quality_tier :: "string option"

record enriched_cafe = derived_cafe +
  is_soc :: bool

definition price_bins :: "float list" where
  "price_bins = [Fin 0, Fin 3.50, Fin 5.00, Fin 6.50, PInf]"

definition price_labels :: "string list" where
  "price_labels = [''budget'', ''moderate'', ''premium'', ''luxury'']"

definition zone_bins :: "float list" where
  "zone_bins = [Fin 0, Fin 2, Fin 5, Fin 10, PInf]"

definition zone_labels :: "string list" where
  "zone_labels = [''core'', ''inner'', ''outer'', ''peripheral'']"

definition tier_bins :: "float list" where
  "tier_bins = [Fin (- 1), Fin 0, Fin 1, Fin 2, PInf]"

definition tier_labels :: "string list" where
  "tier_labels = [''excellent'', ''good'', ''acceptable'', ''poor'']"

definition calculate_distance :: "cafe \<Rightarrow> cell" where
  "calculate_distance row =
     (if isna (latitude row) \<or> isna (longitude row) then None
      else let lat_diff = csub (latitude row) (Some (Fin downtown_lat));
               lng_diff = csub (longitude row) (Some (Fin downtown_lng))
           in cmul (csqrt_cell (cadd (cmul lat_diff lat_diff) (cmul lng_diff lng_diff)))
                (Some (Fin 111)))"

text \<open>
  One row of the enriched frame, from the raw row \<open>raw\<close> (for the masks of section 3), the
  standardized row \<open>r\<close> and the standardized \<^verbatim>\<open>review_count\<close> column (for the rank).
\<close>

definition enrich :: "cell list \<Rightarrow> cafe \<Rightarrow> cafe \<Rightarrow> enriched_cafe" where
  "enrich reviews raw r =
     (let is_soc = str_contains ''square one'' False (name r);
          price_category = pd_cut price_bins price_labels (avg_beverage_price r);
          popularity_percentile = rank_pct reviews (review_count r);
          quality_score = cmul (google_rating r) (np_log (cadd (review_count r) (Some (Fin 1))));
          distance_from_downtown = calculate_distance r;
          location_zone = pd_cut zone_bins zone_labels distance_from_downtown;
          flag_missing_location = (isna (latitude r) \<or> isna (longitude r));
          flag_no_rating = isna (google_rating r);
          flag_no_price = isna (avg_beverage_price r);
          flag_location_out_of_bounds = out_of_bounds raw;
          flag_suspicious_price = price_suspicious raw;
          quality_flag_count = count_true [flag_missing_location, flag_no_rating, flag_no_price,
            flag_location_out_of_bounds, flag_suspicious_price];
          quality_tier = pd_cut tier_bins tier_labels (Some (Fin (real quality_flag_count)))
      in derived_cafe.extend
           (cafe.extend r
              (derived_cafe.fields price_category popularity_percentile quality_score
                 distance_from_downtown location_zone flag_missing_location flag_no_rating
                 flag_no_price flag_location_out_of_bounds flag_suspicious_price
                 quality_flag_count quality_tier))
           (enriched_cafe.fields is_soc))"

definition transformation :: "cafe list \<Rightarrow> enriched_cafe list" where
  "transformation ds_raw =
     (let ds = map standardize ds_raw
      in map (\<lambda>raw. enrich (map review_count ds) raw (standardize raw)) ds_raw)"

section \<open>Analysis tables\<close>

definition soc_locations :: "enriched_cafe list \<Rightarrow> derived_cafe list" where
  "soc_locations ds = map derived_cafe.truncate (filter is_soc ds)"

definition competitors :: "enriched_cafe list \<Rightarrow> derived_cafe list" where
  "competitors ds = map derived_cafe.truncate (filter (\<lambda>r. \<not> is_soc r) ds)"

text \<open>
  The completeness table has one row per column of the raw frame, sorted by the rate of
  non-null cells. The rate is NaN for an empty frame. Rows of equal rate are kept in
  column order here.
\<close>

record completeness_row =
  field :: string
  total_records :: nat
  complete_count :: nat
  missing_count :: nat
  complete_rate :: cell

definition raw_columns :: "(string \<times> (cafe \<Rightarrow> bool)) list" where
  "raw_columns =
     [(''cafe_id'', \<lambda>r. notna (cafe_id r)), (''name'', \<lambda>r. notna (name r)),
      (''address'', \<lambda>r. notna (address r)), (''neighborhood'', \<lambda>r. notna (neighborhood r)),
      (''latitude'', \<lambda>r. notna (latitude r)), (''longitude'', \<lambda>r. notna (longitude r)),
      (''phone'', \<lambda>r. notna (phone r)), (''website'', \<lambda>r. notna (website r)),
      (''cafe_type'', \<lambda>r. notna (cafe_type r)), (''ownership'', \<lambda>r. notna (ownership r)),
      (''avg_beverage_price'', \<lambda>r. notna (avg_beverage_price r)),
      (''has_food'', \<lambda>r. notna (has_food r)), (''has_wifi'', \<lambda>r. notna (has_wifi r)),
      (''seating_capacity'', \<lambda>r. notna (seating_capacity r)),
      (''ambiance'', \<lambda>r. notna (ambiance r)),
      (''parking_availability'', \<lambda>r. notna (parking_availability r)),
      (''hours_weekday'', \<lambda>r. notna (hours_weekday r)),
      (''hours_weekend'', \<lambda>r. notna (hours_weekend r)),
      (''date_opened'', \<lambda>r. notna (date_opened r)),
      (''instagram_handle'', \<lambda>r. notna (instagram_handle r)),
      (''google_rating'', \<lambda>r. notna (google_rating r)),
      (''review_count'', \<lambda>r. notna (review_count r)),
      (''created_at'', \<lambda>r. notna (created_at r)), (''updated_at'', \<lambda>r. notna (updated_at r))]"

definition ratio :: "nat \<Rightarrow> nat \<Rightarrow> cell" where
  "ratio a b = (if b = 0 then (if a = 0 then None else Some PInf) else Some (Fin (real a / real b)))"

definition rate_key :: "completeness_row \<Rightarrow> real" where
  "rate_key row = (case complete_rate row of Some (Fin x) \<Rightarrow> x | _ \<Rightarrow> 2)"

definition completeness_metrics :: "cafe list \<Rightarrow> completeness_row list" where
  "completeness_metrics ds_raw =
     sort_key rate_key
       (map (\<lambda>(col, present).
               \<lparr> field = col,
                 total_records = length ds_raw,
                 complete_count = count_true (map present ds_raw),
                 missing_count = count_true (map (\<lambda>r. \<not> present r) ds_raw),
                 complete_rate = ratio (count_true (map present ds_raw)) (length ds_raw) \<rparr>)
          raw_columns)"

text \<open>
  The tier distribution: \<^verbatim>\<open>value_counts()\<close> of the categorical column gives one row per
  tier label, most frequent first, with the percentage rounded to one decimal
  (\<^verbatim>\<open>round(1)\<close> rounds half to even).
\<close>

definition rint :: "real \<Rightarrow> int" where
  "rint y = (let f = \<lfloor>y\<rfloor>; d = y - of_int f
             in if d < 1 / 2 then f else if 1 / 2 < d then f + 1 else if even f then f else f + 1)"

definition round1 :: "cell \<Rightarrow> cell" where
  "round1 x = (case x of Some (Fin a) \<Rightarrow> Some (Fin (of_int (rint (a * 10)) / 10)) | _ \<Rightarrow> x)"

definition quality_distribution :: "enriched_cafe list \<Rightarrow> (string \<times> nat \<times> cell) list" where
  "quality_distribution ds =
     (let value_counts = sort_key (\<lambda>(tier, n). - int n)
            (map (\<lambda>tier. (tier, count_true (map (\<lambda>r. quality_tier r = Some tier) ds))) tier_labels)
      in map (\<lambda>(tier, n). (tier, n, round1 (cmul (ratio n (length ds)) (Some (Fin 100)))))
           value_counts)"

record metadata_row =
  ferry_date :: string
  python_version :: string
  pandas_version :: string
  input_file :: string
  input_records :: nat
  output_file :: string
  output_records :: nat
  validation_errors :: nat
  validation_warnings :: nat
  avg_completeness :: cell

text \<open>What the run reads from its environment: the clock and the two version strings.\<close>

record env =
  now_isoformat :: string
  sys_version :: string
  pd_version :: string

text \<open>\<^verbatim>\<open>Series.mean()\<close> skips NaN; the mean of no values is NaN.\<close>

definition mean :: "cell list \<Rightarrow> cell" where
  "mean xs = (let vals = map the (filter notna xs)
              in if vals = [] then None
                 else cmul (foldl (\<lambda>acc v. case acc of None \<Rightarrow> None | Some a \<Rightarrow> fadd a v)
                              (Some (Fin 0)) vals)
                        (Some (Fin (1 / real (length vals)))))"

definition metadata :: "env \<Rightarrow> cafe list \<Rightarrow> enriched_cafe list \<Rightarrow> nat \<Rightarrow> nat \<Rightarrow> metadata_row list" where
  "metadata e ds_raw ds errors warnings =
     [\<lparr> ferry_date = now_isoformat e,
        python_version = sys_version e,
        pandas_version = pd_version e,
        input_file = INPUT_DB,
        input_records = length ds_raw,
        output_file = OUTPUT_DB,
        output_records = length ds,
        validation_errors = errors,
        validation_warnings = warnings,
        avg_completeness =
          cmul (mean (map complete_rate (completeness_metrics ds_raw))) (Some (Fin 100)) \<rparr>]"

section \<open>The derived store\<close>

datatype table =
    Cafes "enriched_cafe list"
  | Subset "derived_cafe list"
  | Completeness "completeness_row list"
  | Distribution "(string \<times> nat \<times> cell) list"
  | Metadata "metadata_row list"

type_synonym store = "(string \<times> table) list"

text \<open>
  The tables of section 5, in the order in which section 6 writes them.
\<close>

definition analysis_tables :: "env \<Rightarrow> cafe list \<Rightarrow> nat \<Rightarrow> nat \<Rightarrow> (string \<times> table) list" where
  "analysis_tables e ds_raw errors warnings =
     (let ds = transformation ds_raw
      in [(''cafes_complete'', Cafes ds),
          (''soc_locations'', Subset (soc_locations ds)),
          (''competitors'', Subset (competitors ds)),
          (''completeness_metrics'', Completeness (completeness_metrics ds_raw)),
          (''quality_distribution'', Distribution (quality_distribution ds)),
          (''metadata'', Metadata (metadata e ds_raw ds errors warnings))])"

text \<open>
  Section 6 removes the output file if there is one, opens a new database and writes the
  tables one \<^verbatim>\<open>to_sql\<close> call after the other; each call commits its table. Any of these
  steps can raise; the script catches nothing, so the process then ends with status 1 and
  the file stays as the last completed step left it. A fault names the step that raises,
  \<open>None\<close> is a run in which the file system and the database do not fail.
  \<^verbatim>\<open>to_sql\<close> itself raises when the table exists already.
\<close>

datatype fault = RemoveFails | ConnectFails | ToSqlFails nat

fun to_sql_all :: "fault option \<Rightarrow> nat \<Rightarrow> (string \<times> table) list \<Rightarrow> store \<Rightarrow> nat \<times> store" where
  "to_sql_all f i [] db = (0, db)"
| "to_sql_all f i ((n, t) # rest) db =
     (if f = Some (ToSqlFails i) \<or> n \<in> fst ` set db then (1, db)
      else to_sql_all f (Suc i) rest (db @ [(n, t)]))"

definition write_derived :: "fault option \<Rightarrow> (string \<times> table) list \<Rightarrow> store option \<Rightarrow> nat \<times> store option" where
  "write_derived f tables out =
     (if out \<noteq> None \<and> f = Some RemoveFails then (1, out)
      else if f = Some ConnectFails then (1, None)
      else (case to_sql_all f 0 tables [] of (code, db) \<Rightarrow> (code, Some db)))"

section \<open>The run\<close>

text \<open>
  A run of the script, from the raw table and the state \<open>out\<close> of the output file before
  the run (\<open>None\<close>: no file) to the exit status and the state of the output file after it.
\<close>

definition ferry :: "env \<Rightarrow> fault option \<Rightarrow> cafe list \<Rightarrow> store option \<Rightarrow> nat \<times> store option" where
  "ferry e f ds_raw out =
     (case validation ds_raw of
        Inl code \<Rightarrow> (code, out)
      | Inr (errors, warnings) \<Rightarrow>
          write_derived f (analysis_tables e ds_raw errors warnings) out)"

text \<open>The names of the six tables, and the rows of the metadata table of a store.\<close>

definition metadata_rows :: "store option \<Rightarrow> metadata_row list" where
  "metadata_rows out =
     (case out of None \<Rightarrow> []
      | Some db \<Rightarrow> (case map_of db ''metadata'' of Some (Metadata rows) \<Rightarrow> rows | _ \<Rightarrow> []))"

definition table_names :: "string list" where
  "table_names = [''cafes_complete'', ''soc_locations'', ''competitors'', ''completeness_metrics'',
     ''quality_distribution'', ''metadata'']"

section \<open>Example rows\<close>

text \<open>The example row of the specification, a competitor, and an environment.\<close>

definition square_one_oliver :: cafe where
  "square_one_oliver =
     \<lparr> cafe_id = Some 1, name = Some ''Square One Coffee - Oliver'', address = None,
       neighborhood = Some ''oliver'', latitude = Some (Fin 53.54),
       longitude = Some (Fin (- 113.49)), phone = None, website = None,
       cafe_type = Some ''Specialty_Coffee'', ownership = None,
       avg_beverage_price = Some (Fin 5.25), has_food = None, has_wifi = None,
       seating_capacity = None, ambiance = None, parking_availability = None,
       hours_weekday = None, hours_weekend = None, date_opened = None,
       instagram_handle = None, google_rating = Some (Fin 4.6),
       review_count = Some (Fin 300), created_at = None, updated_at = None \<rparr>"

definition bean_house :: cafe where
  "bean_house = square_one_oliver
     \<lparr> cafe_id := Some 2, name := Some ''The Bean House'', neighborhood := Some ''Garneau'',
       avg_beverage_price := Some (Fin 4.25), google_rating := Some (Fin 4.1),
       review_count := Some (Fin 80) \<rparr>"

definition env0 :: env where
  "env0 = \<lparr> now_isoformat = ''2025-12-12T09:00:00'', sys_version = ''3.11.4'',
            pd_version = ''2.1.0'' \<rparr>"

section \<open>Basic facts\<close>

lemmas record_defs = cafe.defs derived_cafe.defs enriched_cafe.defs

lemma any_map: "any (map P xs) \<longleftrightarrow> (\<exists>x\<in>set xs. P x)"
  by (auto simp: any_def)

lemma duplicated_from_any:
  "any (duplicated_from seen xs) \<longleftrightarrow> \<not> distinct xs \<or> set xs \<inter> set seen \<noteq> {}"
  by (induction xs arbitrary: seen) (auto simp: any_def)

lemma any_duplicated: "any (duplicated xs) \<longleftrightarrow> \<not> distinct xs"
  by (simp add: duplicated_def duplicated_from_any)

lemma count_true_map: "count_true (map P xs) = length (filter P xs)"
  by (induction xs) (auto simp: count_true_def)

lemma add_warnings_eq: "add_warnings m w = w + count_true m"
  by (auto simp: add_warnings_def any_def count_true_def filter_empty_conv)

lemma validation_eq:
  "validation ds_raw =
     (if (\<exists>r\<in>set ds_raw. missing_required r) \<or> \<not> distinct (map cafe_id ds_raw) then Inl 1
      else Inr (0, length (filter location_warnings ds_raw) + length (filter price_warnings ds_raw)
                   + length (filter rating_warnings ds_raw)))"
  by (simp add: validation_def Let_def any_map any_duplicated add_warnings_eq count_true_map)

lemma enrich_simps:
  "cafe_id (enrich col raw r) = cafe_id r"
  "name (enrich col raw r) = name r"
  "latitude (enrich col raw r) = latitude r"
  "longitude (enrich col raw r) = longitude r"
  "avg_beverage_price (enrich col raw r) = avg_beverage_price r"
  "google_rating (enrich col raw r) = google_rating r"
  "review_count (enrich col raw r) = review_count r"
  "is_soc (enrich col raw r) = str_contains ''square one'' False (name r)"
  "price_category (enrich col raw r) = pd_cut price_bins price_labels (avg_beverage_price r)"
  "quality_score (enrich col raw r) =
     cmul (google_rating r) (np_log (cadd (review_count r) (Some (Fin 1))))"
  "flag_missing_location (enrich col raw r) = (isna (latitude r) \<or> isna (longitude r))"
  "flag_no_rating (enrich col raw r) = isna (google_rating r)"
  "flag_no_price (enrich col raw r) = isna (avg_beverage_price r)"
  "flag_location_out_of_bounds (enrich col raw r) = out_of_bounds raw"
  "flag_suspicious_price (enrich col raw r) = price_suspicious raw"
  "quality_flag_count (enrich col raw r) =
     count_true [isna (latitude r) \<or> isna (longitude r), isna (google_rating r),
       isna (avg_beverage_price r), out_of_bounds raw, price_suspicious raw]"
  "quality_tier (enrich col raw r) =
     pd_cut tier_bins tier_labels (Some (Fin (real (quality_flag_count (enrich col raw r)))))"
  by (simp_all add: enrich_def Let_def record_defs)

lemma standardize_simps:
  "cafe_id (standardize r) = cafe_id r"
  "name (standardize r) = name r"
  "latitude (standardize r) = latitude r"
  "longitude (standardize r) = longitude r"
  "avg_beverage_price (standardize r) = avg_beverage_price r"
  "google_rating (standardize r) = (if invalid_rating r then None else google_rating r)"
  "review_count (standardize r) = (if lt (review_count r) (Fin 0) then None else review_count r)"
  by (simp_all add: standardize_def)

lemma transformation_nth:
  "i < length ds_raw \<Longrightarrow>
   transformation ds_raw ! i =
     enrich (map review_count (map standardize ds_raw)) (ds_raw ! i) (standardize (ds_raw ! i))"
  by (simp add: transformation_def)

lemma length_transformation: "length (transformation ds_raw) = length ds_raw"
  by (simp add: transformation_def)

lemma transformation_row:
  assumes "r \<in> set (transformation ds_raw)"
  obtains raw where "raw \<in> set ds_raw"
    and "r = enrich (map review_count (map standardize ds_raw)) raw (standardize raw)"
  using assms by (auto simp: transformation_def)

lemma transformation_single:
  "transformation [x] = [enrich [review_count (standardize x)] x (standardize x)]"
  by (simp add: transformation_def)

lemma price_cut:
  "pd_cut price_bins price_labels x =
     (case x of None \<Rightarrow> None | Some NInf \<Rightarrow> None | Some PInf \<Rightarrow> Some ''luxury''
      | Some (Fin p) \<Rightarrow>
          (if p \<le> 0 then None else if p \<le> 3.50 then Some ''budget''
           else if p \<le> 5.00 then Some ''moderate'' else if p \<le> 6.50 then Some ''premium''
           else Some ''luxury''))"
  by (auto simp: pd_cut_def price_bins_def price_labels_def searchsorted_left_def
      split: option.splits float.splits)

section \<open>Price category\<close>

text \<open>
  Claim C1, as the code has it. In every row of the enriched table the price category is
  read off the price by the bins \<open>(0, 3.50]\<close>, \<open>(3.50, 5.00]\<close>, \<open>(5.00, 6.50]\<close> and
  above \<open>6.50\<close>, labelled budget, moderate, premium and luxury. Each bin contains its
  upper edge, so a price of exactly 3.50 is budget, as is 3.49999. A null price has a
  null category, and so has a price that is not above 0.
\<close>

theorem price_category_bins:
  assumes "r \<in> set (transformation ds_raw)"
  shows "price_category r =
     (case avg_beverage_price r of None \<Rightarrow> None | Some NInf \<Rightarrow> None | Some PInf \<Rightarrow> Some ''luxury''
      | Some (Fin p) \<Rightarrow>
          (if p \<le> 0 then None else if p \<le> 3.50 then Some ''budget''
           else if p \<le> 5.00 then Some ''moderate'' else if p \<le> 6.50 then Some ''premium''
           else Some ''luxury''))"
proof -
  from assms obtain raw where
    r: "r = enrich (map review_count (map standardize ds_raw)) raw (standardize raw)"
    by (rule transformation_row)
  show ?thesis
    unfolding r by (simp only: enrich_simps price_cut)
qed

theorem price_category_bins_witness:
  "price_category (hd (transformation [square_one_oliver\<lparr>avg_beverage_price := Some (Fin 3.49999)\<rparr>]))
     = Some ''budget''"
  using price_category_bins [of "hd (transformation [square_one_oliver\<lparr>avg_beverage_price := Some (Fin 3.49999)\<rparr>])"
      "[square_one_oliver\<lparr>avg_beverage_price := Some (Fin 3.49999)\<rparr>]"]
  by (simp add: transformation_single enrich_simps standardize_simps)

text \<open>The claim's own boundary rule fails: a price of exactly 3.50 is not moderate.\<close>

theorem price_category_boundary_counterexample:
  "price_category (hd (transformation [square_one_oliver\<lparr>avg_beverage_price := Some (Fin 3.50)\<rparr>]))
     = Some ''budget'' \<and>
   price_category (hd (transformation [square_one_oliver\<lparr>avg_beverage_price := Some (Fin 3.50)\<rparr>]))
     \<noteq> Some ''moderate''"
  by (simp add: transformation_single enrich_simps standardize_simps price_cut)

section \<open>Standardized values, flag count and tier\<close>

lemma tier_cut:
  "pd_cut tier_bins tier_labels (Some (Fin x)) =
     (if x \<le> - 1 then None else if x \<le> 0 then Some ''excellent'' else if x \<le> 1 then Some ''good''
      else if x \<le> 2 then Some ''acceptable'' else Some ''poor'')"
  by (auto simp: pd_cut_def tier_bins_def tier_labels_def searchsorted_left_def)

lemma count_true_5:
  "count_true [a, b, c, d, e] = of_bool a + of_bool b + of_bool c + of_bool d + of_bool e"
  by (simp add: count_true_def)

text \<open>
  Claim C7. In every row of the enriched table the rating is null or lies in \<open>[1.0, 5.0]\<close>,
  and the review count is null or not negative. A row whose raw rating is 6.0 ends with a
  null rating and with its no-rating flag set.
\<close>

theorem standardized_ranges:
  assumes "i < length ds_raw"
  shows "(google_rating (transformation ds_raw ! i) = None \<or>
          (\<exists>x. google_rating (transformation ds_raw ! i) = Some (Fin x) \<and> 1.0 \<le> x \<and> x \<le> 5.0)) \<and>
         (review_count (transformation ds_raw ! i) = None \<or>
          (\<exists>v. review_count (transformation ds_raw ! i) = Some v \<and> fle (Fin 0) v)) \<and>
         (google_rating (ds_raw ! i) = Some (Fin 6.0) \<longrightarrow>
            google_rating (transformation ds_raw ! i) = None \<and>
            flag_no_rating (transformation ds_raw ! i))"
proof -
  let ?raw = "ds_raw ! i"
  have rating: "google_rating (transformation ds_raw ! i) =
      (if invalid_rating ?raw then None else google_rating ?raw)"
    using assms by (simp add: transformation_nth enrich_simps standardize_simps)
  have reviews: "review_count (transformation ds_raw ! i) =
      (if lt (review_count ?raw) (Fin 0) then None else review_count ?raw)"
    using assms by (simp add: transformation_nth enrich_simps standardize_simps)
  have flag: "flag_no_rating (transformation ds_raw ! i) =
      isna (google_rating (transformation ds_raw ! i))"
    using assms by (simp add: transformation_nth enrich_simps)
  have 1: "google_rating (transformation ds_raw ! i) = None \<or>
      (\<exists>x. google_rating (transformation ds_raw ! i) = Some (Fin x) \<and> 1.0 \<le> x \<and> x \<le> 5.0)"
  proof (cases "google_rating ?raw")
    case None
    then show ?thesis by (simp add: rating)
  next
    case (Some v)
    then show ?thesis
      by (cases v) (auto simp: rating invalid_rating_def lt_def gt_def)
  qed
  have 2: "review_count (transformation ds_raw ! i) = None \<or>
      (\<exists>v. review_count (transformation ds_raw ! i) = Some v \<and> fle (Fin 0) v)"
  proof (cases "review_count ?raw")
    case None
    then show ?thesis by (simp add: reviews)
  next
    case (Some v)
    then show ?thesis
      by (cases v) (auto simp: reviews lt_def fle_def)
  qed
  have 3: "google_rating ?raw = Some (Fin 6.0) \<longrightarrow>
      google_rating (transformation ds_raw ! i) = None \<and> flag_no_rating (transformation ds_raw ! i)"
    by (simp add: flag rating invalid_rating_def lt_def gt_def isna_def)
  from 1 2 3 show ?thesis by blast
qed

theorem standardized_ranges_witness:
  "google_rating (transformation [square_one_oliver\<lparr>google_rating := Some (Fin 6.0)\<rparr>] ! 0) = None \<and>
   flag_no_rating (transformation [square_one_oliver\<lparr>google_rating := Some (Fin 6.0)\<rparr>] ! 0)"
  using standardized_ranges [of 0 "[square_one_oliver\<lparr>google_rating := Some (Fin 6.0)\<rparr>]"]
  by simp

text \<open>
  Claim C8. In every row of the enriched table the flag count is the number of the five
  quality flags that are set, so it is at most 5, and the tier is binned from it with the
  edges \<open>(-1, 0]\<close>, \<open>(0, 1]\<close>, \<open>(1, 2]\<close> and above 2: no flag is excellent, one is
  good, two is acceptable, three or more is poor.
\<close>

theorem quality_flag_count_tier:
  assumes "r \<in> set (transformation ds_raw)"
  shows "quality_flag_count r =
           of_bool (flag_missing_location r) + of_bool (flag_no_rating r) + of_bool (flag_no_price r) +
           of_bool (flag_location_out_of_bounds r) + of_bool (flag_suspicious_price r) \<and>
         quality_flag_count r \<le> 5 \<and>
         quality_tier r = pd_cut tier_bins tier_labels (Some (Fin (real (quality_flag_count r)))) \<and>
         quality_tier r =
           Some (if quality_flag_count r = 0 then ''excellent'' else if quality_flag_count r = 1 then ''good''
                 else if quality_flag_count r = 2 then ''acceptable'' else ''poor'')"
proof -
  from assms obtain raw where
    r: "r = enrich (map review_count (map standardize ds_raw)) raw (standardize raw)"
    by (rule transformation_row)
  have n: "quality_flag_count r =
           of_bool (flag_missing_location r) + of_bool (flag_no_rating r) + of_bool (flag_no_price r) +
           of_bool (flag_location_out_of_bounds r) + of_bool (flag_suspicious_price r)"
    unfolding r by (simp only: enrich_simps count_true_5)
  have le: "quality_flag_count r \<le> 5"
    unfolding n by (simp add: of_bool_def)
  have t: "quality_tier r = pd_cut tier_bins tier_labels (Some (Fin (real (quality_flag_count r))))"
    unfolding r by (simp only: enrich_simps)
  have "quality_tier r =
           Some (if quality_flag_count r = 0 then ''excellent'' else if quality_flag_count r = 1 then ''good''
                 else if quality_flag_count r = 2 then ''acceptable'' else ''poor'')"
    unfolding t tier_cut by auto
  with n le t show ?thesis by blast
qed

theorem quality_flag_count_tier_witness:
  "quality_flag_count (hd (transformation [square_one_oliver\<lparr>google_rating := None, avg_beverage_price := None\<rparr>])) = 2 \<and>
   quality_tier (hd (transformation [square_one_oliver\<lparr>google_rating := None, avg_beverage_price := None\<rparr>])) = Some ''acceptable''"
proof -
  let ?raw = "square_one_oliver\<lparr>google_rating := None, avg_beverage_price := None\<rparr>"
  let ?r = "hd (transformation [?raw])"
  have n: "quality_flag_count ?r = 2"
    by (simp add: transformation_single enrich_simps standardize_simps square_one_oliver_def
      isna_def out_of_bounds_def price_suspicious_def lt_def gt_def invalid_rating_def
      lat_min_def lat_max_def lng_min_def lng_max_def count_true_def)
  have "?r \<in> set (transformation [?raw])"
    by (simp add: transformation_single)
  from quality_flag_count_tier [OF this]
  have "quality_tier ?r =
      Some (if quality_flag_count ?r = 0 then ''excellent'' else if quality_flag_count ?r = 1 then ''good''
            else if quality_flag_count ?r = 2 then ''acceptable'' else ''poor'')"
    by blast
  with n show ?thesis
    by simp
qed

section \<open>Quality score\<close>

lemma standardized_reviews:
  "review_count (standardize raw) = Some v \<Longrightarrow> fle (Fin 0) v"
  by (cases "review_count raw"; cases v)
    (auto simp: standardize_simps lt_def fle_def split: if_splits)

lemma standardized_rating:
  "google_rating (standardize raw) = Some v \<Longrightarrow> \<exists>g. v = Fin g \<and> 1 \<le> g \<and> g \<le> 5"
  by (cases "google_rating raw"; cases v)
    (auto simp: standardize_simps invalid_rating_def lt_def gt_def split: if_splits)

text \<open>
  Claim C9. In every row of the enriched table the quality score is the rating times the
  natural logarithm of the review count plus one (float64 rounding apart). It is null, not
  zero, whenever the rating or the review count is null. The argument of the logarithm is
  never zero or negative, because negative review counts were nulled before.
\<close>

theorem quality_score_formula:
  assumes "r \<in> set (transformation ds_raw)"
  shows "quality_score r = cmul (google_rating r) (np_log (cadd (review_count r) (Some (Fin 1)))) \<and>
         (google_rating r = None \<or> review_count r = None \<longrightarrow> quality_score r = None) \<and>
         (\<forall>g n. google_rating r = Some (Fin g) \<and> review_count r = Some (Fin n) \<longrightarrow>
            quality_score r = Some (Fin (g * ln (n + 1)))) \<and>
         (\<forall>v. cadd (review_count r) (Some (Fin 1)) = Some v \<longrightarrow> fless (Fin 0) v)"
proof -
  from assms obtain raw where
    r: "r = enrich (map review_count (map standardize ds_raw)) raw (standardize raw)"
    by (rule transformation_row)
  have score: "quality_score r = cmul (google_rating r) (np_log (cadd (review_count r) (Some (Fin 1))))"
    unfolding r by (simp only: enrich_simps)
  have reviews: "fle (Fin 0) v" if "review_count r = Some v" for v
    using that unfolding r by (simp only: enrich_simps standardized_reviews)
  have null: "google_rating r = None \<or> review_count r = None \<longrightarrow> quality_score r = None"
    by (auto simp: score cmul_def cadd_def np_log_def split: option.splits)
  have finite: "quality_score r = Some (Fin (g * ln (n + 1)))"
    if "google_rating r = Some (Fin g)" and "review_count r = Some (Fin n)" for g n
  proof -
    from reviews [OF that(2)] have "0 \<le> n"
      by (auto simp: fle_def)
    then show ?thesis
      by (simp add: score that cmul_def cadd_def np_log_def)
  qed
  have positive: "fless (Fin 0) v" if "cadd (review_count r) (Some (Fin 1)) = Some v" for v
  proof (cases "review_count r")
    case None
    with that show ?thesis by (simp add: cadd_def)
  next
    case (Some w)
    from reviews [OF Some] that Some show ?thesis
      by (cases w) (auto simp: cadd_def fle_def)
  qed
  from score null finite positive show ?thesis
    by blast
qed

theorem quality_score_formula_witness:
  "quality_score (hd (transformation [square_one_oliver])) = Some (Fin (4.6 * ln 301)) \<and>
   quality_score (hd (transformation [square_one_oliver\<lparr>review_count := Some (Fin (- 1))\<rparr>])) = None"
proof -
  let ?r = "hd (transformation [square_one_oliver])"
  let ?raw = "square_one_oliver\<lparr>review_count := Some (Fin (- 1))\<rparr>"
  let ?q = "hd (transformation [?raw])"
  have r: "google_rating ?r = Some (Fin 4.6)" "review_count ?r = Some (Fin 300)"
    by (simp_all add: transformation_single enrich_simps standardize_simps square_one_oliver_def
        invalid_rating_def lt_def gt_def)
  have q: "review_count ?q = None"
    by (simp add: transformation_single enrich_simps standardize_simps lt_def)
  have "?r \<in> set (transformation [square_one_oliver])"
    by (simp add: transformation_single)
  from quality_score_formula [OF this] r have "quality_score ?r = Some (Fin (4.6 * ln (300 + 1)))"
    by blast
  then have 1: "quality_score ?r = Some (Fin (4.6 * ln 301))"
    by simp
  have "?q \<in> set (transformation [?raw])"
    by (simp add: transformation_single)
  from quality_score_formula [OF this] q have 2: "quality_score ?q = None"
    by blast
  from 1 2 show ?thesis ..
qed

section \<open>Quality flags and warning masks\<close>

lemma price_warnings_eq: "price_warnings r = price_suspicious r"
  by (cases "avg_beverage_price r")
    (simp_all add: price_warnings_def has_price_def price_suspicious_def notna_def lt_def gt_def)

text \<open>
  Claim C5, as the code has it. In every row the price flag is the price warning mask and
  the missing-location flag says that the latitude or the longitude is null, whatever the
  bounding box. The out-of-bounds flag is taken from the comparisons with the bounding
  box alone: it is set when a coordinate that is present lies outside the box. It is the
  location warning mask in every row whose coordinates are both present or both null.
\<close>

theorem quality_flags_masks:
  assumes "i < length ds_raw"
  shows "flag_location_out_of_bounds (transformation ds_raw ! i) = out_of_bounds (ds_raw ! i) \<and>
         (isna (latitude (ds_raw ! i)) = isna (longitude (ds_raw ! i)) \<longrightarrow>
            flag_location_out_of_bounds (transformation ds_raw ! i) = location_warnings (ds_raw ! i)) \<and>
         flag_suspicious_price (transformation ds_raw ! i) = price_warnings (ds_raw ! i) \<and>
         flag_missing_location (transformation ds_raw ! i) =
           (latitude (ds_raw ! i) = None \<or> longitude (ds_raw ! i) = None)"
proof -
  let ?raw = "ds_raw ! i"
  have loc: "flag_location_out_of_bounds (transformation ds_raw ! i) = out_of_bounds ?raw"
    using assms by (simp add: transformation_nth enrich_simps)
  have both: "out_of_bounds ?raw = location_warnings ?raw"
    if "isna (latitude ?raw) = isna (longitude ?raw)"
    using that
    by (cases "latitude ?raw"; cases "longitude ?raw")
      (simp_all add: location_warnings_def has_coords_def out_of_bounds_def isna_def notna_def
        lt_def gt_def)
  have price: "flag_suspicious_price (transformation ds_raw ! i) = price_warnings ?raw"
    using assms by (simp add: transformation_nth enrich_simps price_warnings_eq)
  have missing: "flag_missing_location (transformation ds_raw ! i) =
      (latitude ?raw = None \<or> longitude ?raw = None)"
    using assms by (simp add: transformation_nth enrich_simps standardize_simps isna_def)
  from loc both price missing show ?thesis
    by simp
qed

theorem quality_flags_masks_witness:
  "flag_location_out_of_bounds
     (transformation [square_one_oliver\<lparr>longitude := Some (Fin (- 120))\<rparr>] ! 0) \<and>
   location_warnings (square_one_oliver\<lparr>longitude := Some (Fin (- 120))\<rparr>)"
proof -
  let ?raw = "square_one_oliver\<lparr>longitude := Some (Fin (- 120))\<rparr>"
  have w: "location_warnings ?raw"
    by (simp add: square_one_oliver_def location_warnings_def has_coords_def notna_def
        out_of_bounds_def lt_def gt_def lng_min_def)
  have len: "0 < length [?raw]"
    by simp
  have present: "isna (latitude ([?raw] ! 0)) = isna (longitude ([?raw] ! 0))"
    by (simp add: square_one_oliver_def isna_def)
  from quality_flags_masks [OF len] present
  have "flag_location_out_of_bounds (transformation [?raw] ! 0) = location_warnings ([?raw] ! 0)"
    by blast
  with w show ?thesis
    by simp
qed

text \<open>
  With the latitude null and the longitude outside the box, the flag is set although the
  location warning mask is not.
\<close>

theorem flag_location_mask_counterexample:
  "flag_location_out_of_bounds
     (transformation [square_one_oliver\<lparr>latitude := None, longitude := Some (Fin (- 120))\<rparr>] ! 0) \<and>
   \<not> location_warnings (square_one_oliver\<lparr>latitude := None, longitude := Some (Fin (- 120))\<rparr>)"
  by (simp add: transformation_single enrich_simps location_warnings_def has_coords_def
      notna_def out_of_bounds_def lt_def gt_def lng_min_def)

section \<open>The writer and the run\<close>

lemma to_sql_all_eq:
  assumes "distinct (map fst tables)" and "fst ` set tables \<inter> fst ` set db = {}"
  shows "to_sql_all f i tables db =
     (case f of
        Some (ToSqlFails k) \<Rightarrow>
          (if i \<le> k \<and> k < i + length tables then (1, db @ take (k - i) tables)
           else (0, db @ tables))
      | _ \<Rightarrow> (0, db @ tables))"
  using assms
proof (induction tables arbitrary: i db)
  case Nil
  then show ?case
    by (auto split: option.splits fault.splits)
next
  case (Cons nt rest)
  obtain n t where nt: "nt = (n, t)"
    by (cases nt)
  from Cons.prems have fresh: "n \<notin> fst ` set db"
    and d: "distinct (map fst rest)"
    and disj: "fst ` set rest \<inter> fst ` set (db @ [(n, t)]) = {}"
    by (auto simp: nt)
  show ?case
  proof (cases "f = Some (ToSqlFails i)")
    case True
    then show ?thesis
      by (simp add: nt)
  next
    case False
    have "to_sql_all f i (nt # rest) db = to_sql_all f (Suc i) rest (db @ [(n, t)])"
      using False fresh by (simp add: nt)
    also have "\<dots> =
      (case f of
        Some (ToSqlFails k) \<Rightarrow>
          (if Suc i \<le> k \<and> k < Suc i + length rest then (1, (db @ [(n, t)]) @ take (k - Suc i) rest)
           else (0, (db @ [(n, t)]) @ rest))
      | _ \<Rightarrow> (0, (db @ [(n, t)]) @ rest))"
      by (rule Cons.IH [OF d disj])
    also have "\<dots> =
      (case f of
        Some (ToSqlFails k) \<Rightarrow>
          (if i \<le> k \<and> k < i + length (nt # rest) then (1, db @ take (k - i) (nt # rest))
           else (0, db @ nt # rest))
      | _ \<Rightarrow> (0, db @ nt # rest))"
      using False
      by (auto simp: nt take_Cons' Suc_diff_Suc split: option.splits fault.splits nat.splits)
    finally show ?thesis .
  qed
qed

lemma analysis_tables_names: "map fst (analysis_tables e ds_raw errors warnings) = table_names"
  by (simp add: analysis_tables_def table_names_def Let_def)

lemma length_analysis_tables: "length (analysis_tables e ds_raw errors warnings) = 6"
  by (simp add: analysis_tables_def Let_def)

lemma distinct_table_names: "distinct table_names"
  by (simp add: table_names_def)

lemma write_derived_eq:
  "write_derived f (analysis_tables e ds_raw errors warnings) out =
     (case f of
        None \<Rightarrow> (0, Some (analysis_tables e ds_raw errors warnings))
      | Some RemoveFails \<Rightarrow>
          (if out = None then (0, Some (analysis_tables e ds_raw errors warnings)) else (1, out))
      | Some ConnectFails \<Rightarrow> (1, None)
      | Some (ToSqlFails k) \<Rightarrow>
          (if k < 6 then (1, Some (take k (analysis_tables e ds_raw errors warnings)))
           else (0, Some (analysis_tables e ds_raw errors warnings))))"
proof -
  let ?T = "analysis_tables e ds_raw errors warnings"
  have "to_sql_all f 0 ?T [] =
     (case f of
        Some (ToSqlFails k) \<Rightarrow>
          (if 0 \<le> k \<and> k < 0 + length ?T then (1, [] @ take (k - 0) ?T) else (0, [] @ ?T))
      | _ \<Rightarrow> (0, [] @ ?T))"
    by (rule to_sql_all_eq) (simp_all add: analysis_tables_names distinct_table_names)
  then show ?thesis
    by (auto simp: write_derived_def length_analysis_tables split: option.splits fault.splits)
qed

lemma ferry_fatal:
  assumes "(\<exists>r\<in>set ds_raw. missing_required r) \<or> \<not> distinct (map cafe_id ds_raw)"
  shows "ferry e f ds_raw out = (1, out)"
  using assms by (simp add: ferry_def validation_eq)

lemma ferry_valid:
  assumes "\<not> ((\<exists>r\<in>set ds_raw. missing_required r) \<or> \<not> distinct (map cafe_id ds_raw))"
  shows "ferry e f ds_raw out =
     write_derived f (analysis_tables e ds_raw 0
       (length (filter location_warnings ds_raw) + length (filter price_warnings ds_raw)
        + length (filter rating_warnings ds_raw))) out"
  using assms by (simp add: ferry_def validation_eq)

section \<open>Exit status and tables written\<close>

text \<open>
  Claim C2. If a row of the raw table has a null \<^verbatim>\<open>cafe_id\<close>, \<^verbatim>\<open>name\<close>,
  \<^verbatim>\<open>neighborhood\<close> or \<^verbatim>\<open>cafe_type\<close>, or two rows share a \<^verbatim>\<open>cafe_id\<close>, the run ends
  with status 1 and the output file is as it was before the run: no table is written.
  Otherwise the run, when the file system and the database do not fail, ends with status 0
  and the output file holds the six tables.
\<close>

theorem ferry_exit_status:
  "((\<exists>r\<in>set ds_raw. cafe_id r = None \<or> name r = None \<or> neighborhood r = None \<or> cafe_type r = None)
      \<or> \<not> distinct (map cafe_id ds_raw) \<longrightarrow>
    (\<forall>f. ferry e f ds_raw out = (1, out))) \<and>
   (\<not> ((\<exists>r\<in>set ds_raw. cafe_id r = None \<or> name r = None \<or> neighborhood r = None \<or> cafe_type r = None)
      \<or> \<not> distinct (map cafe_id ds_raw)) \<longrightarrow>
    (\<exists>db. ferry e None ds_raw out = (0, Some db) \<and>
       map fst db = [''cafes_complete'', ''soc_locations'', ''competitors'',
         ''completeness_metrics'', ''quality_distribution'', ''metadata'']))"
proof -
  have m: "(\<exists>r\<in>set ds_raw. cafe_id r = None \<or> name r = None \<or> neighborhood r = None \<or> cafe_type r = None)
      \<longleftrightarrow> (\<exists>r\<in>set ds_raw. missing_required r)"
    by (simp add: missing_required_def isna_def)
  show ?thesis
    unfolding m
  proof (intro conjI impI allI)
    fix f
    assume "(\<exists>r\<in>set ds_raw. missing_required r) \<or> \<not> distinct (map cafe_id ds_raw)"
    then show "ferry e f ds_raw out = (1, out)"
      by (rule ferry_fatal)
  next
    assume "\<not> ((\<exists>r\<in>set ds_raw. missing_required r) \<or> \<not> distinct (map cafe_id ds_raw))"
    then show "\<exists>db. ferry e None ds_raw out = (0, Some db) \<and>
       map fst db = [''cafes_complete'', ''soc_locations'', ''competitors'',
         ''completeness_metrics'', ''quality_distribution'', ''metadata'']"
      by (simp add: ferry_valid write_derived_eq analysis_tables_names table_names_def)
  qed
qed

lemma example_rows_valid:
  "\<not> missing_required square_one_oliver" "\<not> missing_required bean_house"
  "cafe_id square_one_oliver = Some 1" "cafe_id bean_house = Some 2"
  by (simp_all add: missing_required_def isna_def square_one_oliver_def bean_house_def)

theorem ferry_exit_status_witness:
  "ferry env0 (Some (ToSqlFails 0)) [square_one_oliver, square_one_oliver] None = (1, None) \<and>
   (\<exists>db. ferry env0 None [square_one_oliver, bean_house] None = (0, Some db) \<and>
      map fst db = [''cafes_complete'', ''soc_locations'', ''competitors'',
         ''completeness_metrics'', ''quality_distribution'', ''metadata''])"
proof -
  have dup: "\<not> distinct (map cafe_id [square_one_oliver, square_one_oliver])"
    by simp
  have ok: "\<not> ((\<exists>r\<in>set [square_one_oliver, bean_house].
        cafe_id r = None \<or> name r = None \<or> neighborhood r = None \<or> cafe_type r = None)
      \<or> \<not> distinct (map cafe_id [square_one_oliver, bean_house]))"
    by (simp add: square_one_oliver_def bean_house_def)
  from ferry_exit_status [of "[square_one_oliver, square_one_oliver]" env0 None] dup
  have 1: "ferry env0 (Some (ToSqlFails 0)) [square_one_oliver, square_one_oliver] None = (1, None)"
    by blast
  from ferry_exit_status [of "[square_one_oliver, bean_house]" env0 None] ok
  have 2: "\<exists>db. ferry env0 None [square_one_oliver, bean_house] None = (0, Some db) \<and>
      map fst db = [''cafes_complete'', ''soc_locations'', ''competitors'',
         ''completeness_metrics'', ''quality_distribution'', ''metadata'']"
    by blast
  from 1 2 show ?thesis ..
qed

section \<open>Warning and error counters\<close>

lemma metadata_rows_tables:
  "metadata_rows (Some (analysis_tables e ds_raw errors warnings)) =
     metadata e ds_raw (transformation ds_raw) errors warnings"
  by (simp add: metadata_rows_def analysis_tables_def Let_def)

lemma metadata_rows_take:
  "k < 6 \<Longrightarrow> metadata_rows (Some (take k (analysis_tables e ds_raw errors warnings))) = []"
proof -
  assume "k < 6"
  then have "k = 0 \<or> k = 1 \<or> k = 2 \<or> k = 3 \<or> k = 4 \<or> k = 5"
    by arith
  then show ?thesis
    by (auto simp: metadata_rows_def analysis_tables_def Let_def take_Cons' numeral_eq_Suc)
qed

lemma metadata_counters:
  "map validation_errors (metadata e ds_raw ds errors warnings) = [errors]"
  "map validation_warnings (metadata e ds_raw ds errors warnings) = [warnings]"
  by (simp_all add: metadata_def)

lemma ferry_success_iff:
  "ferry e None ds_raw out = (0, Some db) \<longleftrightarrow>
     \<not> ((\<exists>r\<in>set ds_raw. missing_required r) \<or> \<not> distinct (map cafe_id ds_raw)) \<and>
     db = analysis_tables e ds_raw 0
       (length (filter location_warnings ds_raw) + length (filter price_warnings ds_raw)
        + length (filter rating_warnings ds_raw))"
proof (cases "(\<exists>r\<in>set ds_raw. missing_required r) \<or> \<not> distinct (map cafe_id ds_raw)")
  case True
  then show ?thesis
    by (simp add: ferry_fatal)
next
  case False
  then show ?thesis
    by (auto simp: ferry_valid write_derived_eq)
qed

lemma warnings_review_count:
  "location_warnings (r\<lparr>review_count := c\<rparr>) = location_warnings r"
  "price_warnings (r\<lparr>review_count := c\<rparr>) = price_warnings r"
  "rating_warnings (r\<lparr>review_count := c\<rparr>) = rating_warnings r"
  "missing_required (r\<lparr>review_count := c\<rparr>) = missing_required r"
  by (simp_all add: location_warnings_def has_coords_def out_of_bounds_def
      price_warnings_def has_price_def price_suspicious_def rating_warnings_def has_rating_def
      invalid_rating_def missing_required_def)

lemma validation_review_count:
  "validation (map (\<lambda>r. r\<lparr>review_count := g r\<rparr>) ds_raw) = validation ds_raw"
  by (simp add: validation_eq filter_map o_def warnings_review_count)

text \<open>
  Claim C3, as the code has it. When the raw table passes the fatal checks, the warning
  total in the metadata table is the number of rows with out-of-bounds coordinates plus
  the number with an implausible price plus the number with an invalid rating. A negative
  review count is corrected to null, but it is not counted: the outcome of the validation
  does not depend on the review counts at all.
\<close>

theorem warning_total:
  assumes "ferry e None ds_raw out = (0, Some db)"
  shows "map validation_warnings (metadata_rows (Some db)) =
           [length (filter location_warnings ds_raw) + length (filter price_warnings ds_raw)
            + length (filter rating_warnings ds_raw)] \<and>
         (\<forall>i<length ds_raw. lt (review_count (ds_raw ! i)) (Fin 0) \<longrightarrow>
            review_count (transformation ds_raw ! i) = None) \<and>
         (\<forall>g. validation (map (\<lambda>r. r\<lparr>review_count := g r\<rparr>) ds_raw) = validation ds_raw)"
proof -
  from assms have db: "db = analysis_tables e ds_raw 0
       (length (filter location_warnings ds_raw) + length (filter price_warnings ds_raw)
        + length (filter rating_warnings ds_raw))"
    by (simp add: ferry_success_iff)
  have total: "map validation_warnings (metadata_rows (Some db)) =
           [length (filter location_warnings ds_raw) + length (filter price_warnings ds_raw)
            + length (filter rating_warnings ds_raw)]"
    unfolding db by (simp only: metadata_rows_tables metadata_counters)
  have nulled: "review_count (transformation ds_raw ! i) = None"
    if "i < length ds_raw" and "lt (review_count (ds_raw ! i)) (Fin 0)" for i
    using that by (simp add: transformation_nth enrich_simps standardize_simps)
  from total nulled validation_review_count show ?thesis
    by blast
qed

lemma example_valid_single:
  "\<not> ((\<exists>r\<in>set [square_one_oliver\<lparr>review_count := c\<rparr>]. missing_required r) \<or>
       \<not> distinct (map cafe_id [square_one_oliver\<lparr>review_count := c\<rparr>]))"
  by (simp add: missing_required_def isna_def square_one_oliver_def)

lemma example_no_warnings:
  "\<not> location_warnings (square_one_oliver\<lparr>review_count := c\<rparr>)"
  "\<not> price_warnings (square_one_oliver\<lparr>review_count := c\<rparr>)"
  "\<not> rating_warnings (square_one_oliver\<lparr>review_count := c\<rparr>)"
  by (simp_all add: square_one_oliver_def location_warnings_def out_of_bounds_def
      price_warnings_def price_suspicious_def rating_warnings_def invalid_rating_def lt_def gt_def
      lat_min_def lat_max_def lng_min_def lng_max_def price_min_def price_max_def)

lemma example_ferry:
  "ferry e None [square_one_oliver\<lparr>review_count := c\<rparr>] out =
     (0, Some (analysis_tables e [square_one_oliver\<lparr>review_count := c\<rparr>] 0 0))"
  using example_valid_single [of c]
  by (simp add: ferry_valid write_derived_eq example_no_warnings)

theorem warning_total_witness:
  "map validation_warnings
     (metadata_rows (Some (analysis_tables env0 [square_one_oliver\<lparr>review_count := Some (Fin (- 5))\<rparr>] 0 0)))
     = [0] \<and>
   review_count (transformation [square_one_oliver\<lparr>review_count := Some (Fin (- 5))\<rparr>] ! 0) = None"
proof -
  let ?raw = "square_one_oliver\<lparr>review_count := Some (Fin (- 5))\<rparr>"
  have run: "ferry env0 None [?raw] None = (0, Some (analysis_tables env0 [?raw] 0 0))"
    by (rule example_ferry)
  have neg: "lt (review_count ([?raw] ! 0)) (Fin 0)"
    by (simp add: lt_def)
  from warning_total [OF run] neg
  have "map validation_warnings (metadata_rows (Some (analysis_tables env0 [?raw] 0 0))) =
      [length (filter location_warnings [?raw]) + length (filter price_warnings [?raw])
            + length (filter rating_warnings [?raw])]"
    and "review_count (transformation [?raw] ! 0) = None"
    by simp_all
  then show ?thesis
    by (simp add: example_no_warnings)
qed

text \<open>
  A table whose only row has the review count \<open>-5\<close> passes the fatal checks and is written
  with a warning total of 0, although the row has a negative review count.
\<close>

theorem negative_review_count_counterexample:
  "lt (review_count (square_one_oliver\<lparr>review_count := Some (Fin (- 5))\<rparr>)) (Fin 0) \<and>
   fst (ferry env0 None [square_one_oliver\<lparr>review_count := Some (Fin (- 5))\<rparr>] None) = 0 \<and>
   map validation_warnings
     (metadata_rows (snd (ferry env0 None [square_one_oliver\<lparr>review_count := Some (Fin (- 5))\<rparr>] None)))
     = [0]"
  by (simp add: example_ferry metadata_rows_tables metadata_counters lt_def)

section \<open>The error counter in the metadata table\<close>

lemma ferry_eq:
  "ferry e f ds_raw out =
     (if (\<exists>r\<in>set ds_raw. missing_required r) \<or> \<not> distinct (map cafe_id ds_raw) then (1, out)
      else let T = analysis_tables e ds_raw 0
                 (length (filter location_warnings ds_raw) + length (filter price_warnings ds_raw)
                  + length (filter rating_warnings ds_raw))
           in (case f of
                 None \<Rightarrow> (0, Some T)
               | Some RemoveFails \<Rightarrow> (if out = None then (0, Some T) else (1, out))
               | Some ConnectFails \<Rightarrow> (1, None)
               | Some (ToSqlFails k) \<Rightarrow> (if k < 6 then (1, Some (take k T)) else (0, Some T))))"
  by (simp add: ferry_fatal ferry_valid write_derived_eq Let_def)

text \<open>
  Claim C10. A run that starts without an output file leaves only tables it wrote itself,
  and every row of a metadata table it leaves has \<^verbatim>\<open>validation_errors\<close> equal to 0. A run
  that starts with an output file either leaves that file as it was or leaves what the
  same run leaves when it starts without one. So the run never writes another value.
\<close>

theorem validation_errors_zero:
  "(\<forall>m\<in>set (metadata_rows (snd (ferry e f ds_raw None))). validation_errors m = 0) \<and>
   (snd (ferry e f ds_raw out) = out \<or> snd (ferry e f ds_raw out) = snd (ferry e f ds_raw None))"
proof -
  let ?w = "length (filter location_warnings ds_raw) + length (filter price_warnings ds_raw)
            + length (filter rating_warnings ds_raw)"
  let ?T = "analysis_tables e ds_raw 0 ?w"
  have full: "\<forall>m\<in>set (metadata_rows (Some ?T)). validation_errors m = 0"
    by (simp add: metadata_rows_tables metadata_def)
  have part: "\<forall>m\<in>set (metadata_rows (Some (take k ?T))). validation_errors m = 0" if "k < 6" for k
    using that by (simp add: metadata_rows_take)
  have none: "\<forall>m\<in>set (metadata_rows None). validation_errors m = 0"
    by (simp add: metadata_rows_def)
  have 1: "\<forall>m\<in>set (metadata_rows (snd (ferry e f ds_raw None))). validation_errors m = 0"
  proof (cases "(\<exists>r\<in>set ds_raw. missing_required r) \<or> \<not> distinct (map cafe_id ds_raw)")
    case True
    then show ?thesis
      by (simp add: ferry_fatal none)
  next
    case False
    show ?thesis
    proof (cases f)
      case None
      with False full show ?thesis
        by (simp add: ferry_eq Let_def)
    next
      case (Some flt)
      show ?thesis
      proof (cases flt)
        case RemoveFails
        with False Some full show ?thesis
          by (simp add: ferry_eq Let_def)
      next
        case ConnectFails
        with False Some none show ?thesis
          by (simp add: ferry_eq Let_def)
      next
        case (ToSqlFails k)
        with False Some full part [of k] show ?thesis
          by (simp add: ferry_eq Let_def)
      qed
    qed
  qed
  have 2: "snd (ferry e f ds_raw out) = out \<or> snd (ferry e f ds_raw out) = snd (ferry e f ds_raw None)"
    by (simp add: ferry_eq Let_def split: option.splits fault.splits)
  from 1 2 show ?thesis ..
qed

theorem validation_errors_zero_witness:
  "map validation_errors (metadata_rows (snd (ferry env0 None [square_one_oliver] None))) = [0]"
proof -
  have run: "ferry env0 None [square_one_oliver] None
      = (0, Some (analysis_tables env0 [square_one_oliver] 0 0))"
    using example_ferry [of env0 "review_count square_one_oliver" None] by simp
  have rows: "metadata_rows (snd (ferry env0 None [square_one_oliver] None)) =
      metadata env0 [square_one_oliver] (transformation [square_one_oliver]) 0 0"
    by (simp add: run metadata_rows_tables)
  have "\<exists>m. metadata_rows (snd (ferry env0 None [square_one_oliver] None)) = [m]"
    by (simp add: rows metadata_def)
  then obtain m where m: "metadata_rows (snd (ferry env0 None [square_one_oliver] None)) = [m]" ..
  with validation_errors_zero [of env0 None "[square_one_oliver]" None]
  have "validation_errors m = 0"
    by simp
  with m show ?thesis
    by simp
qed

section \<open>A write that fails partway\<close>

text \<open>
  Claim C4, as the code has it. The writer removes the prior store before it writes, and
  each table is committed on its own. When the write of table number \<open>k\<close> (counted from 0)
  fails, the run ends with status 1, the prior store is gone, and the output file holds
  exactly the \<open>k\<close> new tables written before, with nothing of the old contents. The prior
  store survives, complete, only when its removal is the step that fails; when opening
  the new database fails, no store is left.
\<close>

theorem write_failure_store:
  assumes "validation ds_raw = Inr (errors, warnings)"
  shows "(k < 6 \<longrightarrow> ferry e (Some (ToSqlFails k)) ds_raw out =
            (1, Some (take k (analysis_tables e ds_raw errors warnings)))) \<and>
         ferry e (Some ConnectFails) ds_raw out = (1, None) \<and>
         (out \<noteq> None \<longrightarrow> ferry e (Some RemoveFails) ds_raw out = (1, out)) \<and>
         ferry e None ds_raw out = (0, Some (analysis_tables e ds_raw errors warnings))"
  using assms by (simp add: ferry_def write_derived_eq)

lemma example_validation:
  "validation [square_one_oliver] = Inr (0, 0)"
  using example_valid_single [of "review_count square_one_oliver"]
    example_no_warnings [of "review_count square_one_oliver"]
  by (simp add: validation_eq)

theorem write_failure_store_witness:
  "ferry env0 (Some (ToSqlFails 3)) [square_one_oliver] (Some (analysis_tables env0 [bean_house] 0 0)) =
     (1, Some (take 3 (analysis_tables env0 [square_one_oliver] 0 0)))"
  using write_failure_store [OF example_validation, of 3 env0 "Some (analysis_tables env0 [bean_house] 0 0)"]
  by simp

text \<open>
  The third write fails in a run over a table with one row, started on the store of an
  earlier run over another table. The run leaves three tables: neither the prior store
  nor the complete new one.
\<close>

theorem partial_store_counterexample:
  "snd (ferry env0 (Some (ToSqlFails 3)) [square_one_oliver]
          (Some (analysis_tables env0 [bean_house] 0 0)))
     = Some (take 3 (analysis_tables env0 [square_one_oliver] 0 0)) \<and>
   map fst (take 3 (analysis_tables env0 [square_one_oliver] 0 0))
     = [''cafes_complete'', ''soc_locations'', ''competitors''] \<and>
   take 3 (analysis_tables env0 [square_one_oliver] 0 0) \<noteq> analysis_tables env0 [bean_house] 0 0 \<and>
   take 3 (analysis_tables env0 [square_one_oliver] 0 0) \<noteq> analysis_tables env0 [square_one_oliver] 0 0"
proof -
  let ?new = "analysis_tables env0 [square_one_oliver] 0 0"
  let ?old = "analysis_tables env0 [bean_house] 0 0"
  have run: "snd (ferry env0 (Some (ToSqlFails 3)) [square_one_oliver] (Some ?old)) = Some (take 3 ?new)"
    by (simp add: ferry_def example_validation write_derived_eq)
  have names: "map fst (take 3 ?new) = [''cafes_complete'', ''soc_locations'', ''competitors'']"
    by (simp add: take_map [symmetric] analysis_tables_names table_names_def)
  have len: "length (take 3 ?new) = 3"
    by (simp add: length_analysis_tables)
  have old: "take 3 ?new \<noteq> ?old"
  proof
    assume "take 3 ?new = ?old"
    then have "length (take 3 ?new) = length ?old"
      by simp
    then show False
      by (simp add: length_analysis_tables)
  qed
  have new: "take 3 ?new \<noteq> ?new"
  proof
    assume "take 3 ?new = ?new"
    then have "length (take 3 ?new) = length ?new"
      by simp
    then show False
      by (simp add: length_analysis_tables)
  qed
  from run names old new show ?thesis
    by blast
qed

end
